theory Spec2Isabelle
  imports Main "HOL-Library.Word" "HOL-Library.Sublist"
begin

section \<open>Go values shared by the tools\<close>

text \<open>
  Go's \<open>int\<close> is a 64-bit two's complement integer on the platforms the program is built
  for: \<open>+\<close> and \<open>*\<close> wrap around, comparisons are signed (\<open>\<le>s\<close>, \<open><s\<close>, read through
  \<open>sint\<close>). String indices and loop counters stay far below \<open>2^63\<close> and are natural
  numbers or integers. A Go \<open>string\<close> is a sequence of bytes, here a \<open>char list\<close>.
  Allocation (\<open>make\<close>, string concatenation) is taken to succeed.
\<close>

type_synonym go_int = "64 word"

datatype panic = Panic string

text \<open>An error value: its message, or \<open>fmt.Errorf(prefix + "%w", err)\<close> wrapping another.\<close>

datatype go_error = Error string | Errorf_w string go_error

text \<open>\<open>fantasy.NewTextResponse(s)\<close>: an ordinary tool output carrying the text \<open>s\<close>.\<close>

datatype ToolResponse = NewTextResponse string

text \<open>The pair \<open>(fantasy.ToolResponse, error)\<close> a tool handler returns; \<open>None\<close> is \<open>nil\<close>.\<close>

type_synonym tool_result = "ToolResponse \<times> go_error option"

subsection \<open>Formatting: the \<open>fmt\<close> verbs the program applies to integers and strings\<close>

definition digit_char :: "nat \<Rightarrow> char" where
  "digit_char d = ''0123456789'' ! d"

fun decimal :: "nat \<Rightarrow> string" where
  "decimal n = (if n < 10 then [digit_char n] else decimal (n div 10) @ [digit_char (n mod 10)])"

declare decimal.simps [simp del]

text \<open>\<open>%d\<close> on a mathematical integer (lengths and loop indices).\<close>

definition fmt_d_int :: "int \<Rightarrow> string" where
  "fmt_d_int i = (if i < 0 then ''-'' @ decimal (nat (- i)) else decimal (nat i))"

text \<open>\<open>%d\<close> on a Go \<open>int\<close>.\<close>

definition fmt_d :: "go_int \<Rightarrow> string" where
  "fmt_d w = fmt_d_int (sint w)"

text \<open>\<open>%+d\<close>: the sign is always printed.\<close>

definition fmt_plus_d :: "go_int \<Rightarrow> string" where
  "fmt_plus_d w = (if sint w < 0 then ''-'' @ decimal (nat (- sint w)) else ''+'' @ decimal (nat (sint w)))"

text \<open>\<open>strings.Join(parts, sep)\<close>.\<close>

fun Join :: "string list \<Rightarrow> string \<Rightarrow> string" where
  "Join [] sep = []"
| "Join [p] sep = p"
| "Join (p # q # ps) sep = p @ sep @ Join (q # ps) sep"

text \<open>\<open>%v\<close> on a \<open>[]int\<close>: the elements in decimal, separated by spaces, in brackets.\<close>

definition fmt_v_ints :: "go_int list \<Rightarrow> string" where
  "fmt_v_ints xs = ''['' @ Join (map fmt_d xs) '' '' @ '']''"

section \<open>Tool: roll_dice\<close>

subsection \<open>The entropy source\<close>

text \<open>
  \<open>rand.Int(rand.Reader, max)\<close> of \<open>crypto/rand\<close> is an external collaborator. An
  \<open>entropy\<close> gives, for the \<open>i\<close>-th draw of one tool call and the bound \<open>max\<close>, the
  integer drawn. Its contract (\<open>entropy_ok\<close>) is the library's: a value in \<open>[0, max)\<close>
  whenever \<open>max > 0\<close>. The library panics when \<open>max \<le> 0\<close>. The code drops the error
  result of \<open>rand.Int\<close>; the system's random source is taken not to fail.
\<close>

type_synonym entropy = "nat \<Rightarrow> int \<Rightarrow> int"

definition entropy_ok :: "entropy \<Rightarrow> bool" where
  "entropy_ok rnd = (\<forall>i m. 0 < m \<longrightarrow> 0 \<le> rnd i m \<and> rnd i m < m)"

definition rand_Int :: "entropy \<Rightarrow> nat \<Rightarrow> go_int \<Rightarrow> panic + int" where
  "rand_Int rnd i mx =
     (if sint mx \<le> 0 then Inl (Panic ''crypto/rand: argument to Int is <= 0'')
      else Inr (rnd i (sint mx)))"

text \<open>
  The mocked entropy source of a test: the draws are the given values, in order (and 0
  once they are used up).
\<close>

definition fixed_entropy :: "int list \<Rightarrow> entropy" where
  "fixed_entropy draws i m = (if i < length draws then draws ! i else 0)"

subsection \<open>The roll loop (the same in both versions of \<open>rollDice\<close>)\<close>

text \<open>
  \<^verbatim>\<open>
  for i := range count {            // for i := 0; i < count; i++ in the notation version
      n, _ := rand.Int(rand.Reader, big.NewInt(int64(sides)))
      rolls[i] = int(n.Int64()) + 1
      total += rolls[i]
  }
  \<close>
\<close>

function roll_loop ::
  "entropy \<Rightarrow> go_int \<Rightarrow> go_int \<Rightarrow> nat \<Rightarrow> go_int list \<Rightarrow> go_int \<Rightarrow> panic + (go_int list \<times> go_int)"
where
  "roll_loop rnd sides count i rolls tot =
     (if int i < sint count then
        (case rand_Int rnd i sides of
           Inl p \<Rightarrow> Inl p
         | Inr n \<Rightarrow>
             if length rolls \<le> i then Inl (Panic ''index out of range'')
             else roll_loop rnd sides count (Suc i)
                    (rolls[i := word_of_int n + 1]) (tot + (rolls[i := word_of_int n + 1]) ! i))
      else Inr (rolls, tot))"
  by pat_completeness auto
termination
  by (relation "measure (\<lambda>(rnd, sides, count, i, rolls, tot). nat (sint count) - i)") auto

declare roll_loop.simps [simp del]

text \<open>
  \<^verbatim>\<open>
  rolls := make([]int, count)
  total := 0
  for ... { ... }
  total += modifier
  \<close>
  \<open>make\<close> panics on a negative length.
\<close>

definition roll :: "entropy \<Rightarrow> go_int \<Rightarrow> go_int \<Rightarrow> go_int \<Rightarrow> panic + (go_int list \<times> go_int)" where
  "roll rnd count sides modifier =
     (if sint count < 0 then Inl (Panic ''makeslice: len out of range'')
      else
        (case roll_loop rnd sides count 0 (replicate (nat (sint count)) 0) 0 of
           Inl p \<Rightarrow> Inl p
         | Inr (rolls, tot) \<Rightarrow> Inr (rolls, tot + modifier)))"

subsection \<open>The structured version (\<open>main.go\<close>)\<close>





subsection \<open>String functions of the Go library used by the notation version\<close>

text \<open>
  The byte sequences (UTF-8) of the runes for which \<open>unicode.IsSpace\<close> holds:
  the six ASCII ones, U+0085, U+00A0, U+1680, U+2000 to U+200A, U+2028, U+2029, U+202F,
  U+205F and U+3000.
\<close>

definition white_space :: "string list" where
  "white_space =
     [[CHR 0x09], [CHR 0x0A], [CHR 0x0B], [CHR 0x0C], [CHR 0x0D], [CHR 0x20],
      [CHR 0xC2, CHR 0x85], [CHR 0xC2, CHR 0xA0], [CHR 0xE1, CHR 0x9A, CHR 0x80],
      [CHR 0xE2, CHR 0x80, CHR 0x80], [CHR 0xE2, CHR 0x80, CHR 0x81],
      [CHR 0xE2, CHR 0x80, CHR 0x82], [CHR 0xE2, CHR 0x80, CHR 0x83],
      [CHR 0xE2, CHR 0x80, CHR 0x84], [CHR 0xE2, CHR 0x80, CHR 0x85],
      [CHR 0xE2, CHR 0x80, CHR 0x86], [CHR 0xE2, CHR 0x80, CHR 0x87],
      [CHR 0xE2, CHR 0x80, CHR 0x88], [CHR 0xE2, CHR 0x80, CHR 0x89],
      [CHR 0xE2, CHR 0x80, CHR 0x8A], [CHR 0xE2, CHR 0x80, CHR 0xA8],
      [CHR 0xE2, CHR 0x80, CHR 0xA9], [CHR 0xE2, CHR 0x80, CHR 0xAF],
      [CHR 0xE2, CHR 0x81, CHR 0x9F], [CHR 0xE3, CHR 0x80, CHR 0x80]]"

text \<open>The number of bytes of the rune of \<open>table\<close> that \<open>s\<close> starts with (0 if none).\<close>

definition space_width :: "string list \<Rightarrow> string \<Rightarrow> nat" where
  "space_width table s =
     (case find (\<lambda>w. take (length w) s = w) table of None \<Rightarrow> 0 | Some w \<Rightarrow> length w)"

function trim_left :: "string list \<Rightarrow> string \<Rightarrow> string" where
  "trim_left table s =
     (if s \<noteq> [] \<and> 0 < space_width table s
      then trim_left table (drop (space_width table s) s) else s)"
  by pat_completeness auto
termination
  by (relation "measure (\<lambda>(table, s). length s)") auto

declare trim_left.simps [simp del]

text \<open>
  \<open>strings.TrimSpace\<close>: all leading and trailing white space removed. The trailing
  runes are found on the reversed string with the reversed byte sequences.
\<close>

definition TrimSpace :: "string \<Rightarrow> string" where
  "TrimSpace s = rev (trim_left (map rev white_space) (rev (trim_left white_space s)))"

text \<open>\<open>strings.IndexAny(s, chars)\<close> for ASCII \<open>chars\<close>: the first index of one of them, or -1.\<close>

fun IndexAny :: "string \<Rightarrow> string \<Rightarrow> int" where
  "IndexAny [] chars = - 1"
| "IndexAny (c # cs) chars =
     (if c \<in> set chars then 0
      else (let r = IndexAny cs chars in if r < 0 then - 1 else r + 1))"

text \<open>
  \<open>strings.ToLower\<close> on the ASCII letters. (On a rune outside ASCII the library
  gives another rune, never \<open>d\<close>, a digit or a sign, which are all the parser looks at.)
\<close>

definition to_lower :: "char \<Rightarrow> char" where
  "to_lower c =
     (if (65::nat) \<le> of_char c \<and> of_char c \<le> (90::nat)
      then char_of (of_char c + (32::nat)) else c)"

definition ToLower :: "string \<Rightarrow> string" where
  "ToLower s = map to_lower s"

text \<open>\<open>strings.SplitN(s, sep, 2)\<close> for a separator of one byte: a split at its first occurrence.\<close>

definition SplitN2 :: "string \<Rightarrow> char \<Rightarrow> string list" where
  "SplitN2 s sep =
     (if sep \<in> set s
      then [takeWhile (\<lambda>c. c \<noteq> sep) s, tl (dropWhile (\<lambda>c. c \<noteq> sep) s)]
      else [s])"

definition is_digit :: "char \<Rightarrow> bool" where
  "is_digit c = ((48::nat) \<le> of_char c \<and> of_char c \<le> (57::nat))"

definition digits_value :: "string \<Rightarrow> int" where
  "digits_value ds = foldl (\<lambda>n c. n * 10 + (of_char c - 48)) 0 ds"

text \<open>
  \<open>strconv.ParseInt(s, 10, 64)\<close>: an optional sign, then one or more decimal digits, and
  a value that fits in 64 bits; \<open>None\<close> is a non-nil error (syntax or range).
\<close>

definition ParseInt10 :: "string \<Rightarrow> go_int option" where
  "ParseInt10 s =
     (let neg = (s \<noteq> [] \<and> hd s = CHR ''-'');
          ds = (if s \<noteq> [] \<and> (hd s = CHR ''-'' \<or> hd s = CHR ''+'') then tl s else s)
      in if ds = [] \<or> \<not> list_all is_digit ds then None
         else let v = (if neg then - digits_value ds else digits_value ds)
              in if - (2 ^ 63) \<le> v \<and> v < 2 ^ 63 then Some (word_of_int v) else None)"

text \<open>\<open>strconv.Atoi(s)\<close> is \<open>ParseInt(s, 10, 0)\<close> converted to \<open>int\<close>.\<close>

definition Atoi :: "string \<Rightarrow> go_int option" where
  "Atoi s = ParseInt10 s"

text \<open>
  \<open>SkipSpace\<close> of \<open>fmt\<close>'s scanner, as \<open>Sscanf\<close> runs it before a number: leading
  white space is skipped, a newline in it is an error (\<open>None\<close>).
\<close>

function SkipSpace :: "string \<Rightarrow> string option" where
  "SkipSpace s =
     (if s = [] then Some s
      else if hd s = CHR 0x0A then None
      else if 0 < space_width white_space s then SkipSpace (drop (space_width white_space s) s)
      else Some s)"
  by pat_completeness auto
termination
  by (relation "measure length") auto

declare SkipSpace.simps [simp del]

text \<open>
  \<open>fmt.Sscanf(s, "%d", &v)\<close>: white space, an optional sign, the longest run of digits and
  underscores (one at least), parsed by \<open>ParseInt\<close> in base 10; whatever follows is left
  unread. \<open>None\<close>: the scan failed and \<open>v\<close> keeps its value.
\<close>

definition Sscanf_d :: "string \<Rightarrow> go_int option" where
  "Sscanf_d s =
     (case SkipSpace s of
        None \<Rightarrow> None
      | Some s1 \<Rightarrow>
          if s1 = [] then None
          else
            let sign = (if hd s1 = CHR ''+'' \<or> hd s1 = CHR ''-'' then [hd s1] else []);
                run = takeWhile (\<lambda>c. is_digit c \<or> c = CHR ''_'') (drop (length sign) s1)
            in if run = [] then None else ParseInt10 (sign @ run))"

subsection \<open>The notation version\<close>

text \<open>
  The parsing half of \<open>rollDice\<close>, from the trimmed \<open>notation\<close> to \<open>count\<close>, \<open>sides\<close> and
  \<open>modifier\<close>. \<open>notation[1:]\<close> panics on the empty string; \<open>idx\<close> is an index of
  \<open>notation\<close> by construction, so the other index expressions are in range.
\<close>

datatype parsed = Invalid_notation | Parsed go_int go_int go_int

text \<open>
  \<^verbatim>\<open>
  mainPart := notation
  if idx := strings.IndexAny(notation[1:], "+-"); idx >= 0 {
      idx++
      if notation[idx] == '-' { modSign = -1 }
      fmt.Sscanf(notation[idx+1:], "%d", &modifier)
      modifier *= modSign
      mainPart = notation[:idx]
  }
  \<close>
  as the two values it computes, on a notation that is not empty.
\<close>

definition mainPart :: "string \<Rightarrow> string" where
  "mainPart notation =
     (let found = IndexAny (drop 1 notation) ''+-''
      in if 0 \<le> found then take (nat (found + 1)) notation else notation)"

definition parse_modifier :: "string \<Rightarrow> go_int" where
  "parse_modifier notation =
     (let found = IndexAny (drop 1 notation) ''+-'';
          idx = nat (found + 1)
      in if 0 \<le> found
         then (case Sscanf_d (drop (idx + 1) notation) of None \<Rightarrow> 0 | Some m \<Rightarrow> m)
                * (if notation ! idx = CHR ''-'' then - 1 else 1)
         else 0)"

definition parse_dice :: "string \<Rightarrow> panic + parsed" where
  "parse_dice notation =
     (if length notation < 1 then Inl (Panic ''slice bounds out of range [1:0]'')
      else
        let modifier = parse_modifier notation;
            parts = SplitN2 (ToLower (mainPart notation)) (CHR ''d'')
        in if length parts \<noteq> 2 then Inr Invalid_notation
           else
             let count = (case Atoi (parts ! 0) of
                            None \<Rightarrow> 1
                          | Some c \<Rightarrow> if c \<le>s 0 then 1 else c)
             in case Atoi (parts ! 1) of
                  None \<Rightarrow> Inr Invalid_notation
                | Some sides \<Rightarrow>
                    if sides \<le>s 0 then Inr Invalid_notation
                    else Inr (Parsed count sides modifier))"

definition invalid_text :: "string \<Rightarrow> string" where
  "invalid_text notation = ''Invalid dice notation: '' @ notation"

definition result_text :: "string \<Rightarrow> go_int \<Rightarrow> go_int list \<Rightarrow> go_int \<Rightarrow> string" where
  "result_text notation modifier rolls tot =
     (let result = [CHR 0xF0, CHR 0x9F, CHR 0x8E, CHR 0xB2] @ '' Rolling '' @ notation @ '': ''
                     @ fmt_v_ints rolls;
          result = (if modifier \<noteq> 0 then result @ '' '' @ fmt_plus_d modifier else result)
      in result @ '' = **'' @ fmt_d tot @ ''**'')"

definition rollDice_notation :: "entropy \<Rightarrow> string \<Rightarrow> panic + tool_result" where
  "rollDice_notation rnd Notation =
     (let notation = TrimSpace Notation
      in case parse_dice notation of
           Inl p \<Rightarrow> Inl p
         | Inr Invalid_notation \<Rightarrow> Inr (NewTextResponse (invalid_text notation), None)
         | Inr (Parsed count sides modifier) \<Rightarrow>
             (case roll rnd count sides modifier of
                Inl p \<Rightarrow> Inl p
              | Inr (rolls, tot) \<Rightarrow>
                  Inr (NewTextResponse (result_text notation modifier rolls tot), None)))"

section \<open>Tool: ask_player\<close>

record askPlayerInput =
  Question :: string
  Options :: "string list"

text \<open>
  The shared \<open>playerScanner\<close> over standard input: \<open>stdin k\<close> is what the \<open>k\<close>-th call of
  \<open>playerScanner.Scan()\<close> finds, \<open>Some line\<close> when it returns true with \<open>Text() = line\<close>,
  \<open>None\<close> when it returns false (the stream is closed, or could not be read). The
  scanner's state is the
  number \<open>pos\<close> of lines read so far; a scanner that has returned false stays there.
  \<open>out\<close> is the text printed to standard output so far.
\<close>

type_synonym stdin = "nat \<Rightarrow> string option"

definition choose_prompt :: "string list \<Rightarrow> string" where
  "choose_prompt options = [CHR 0x0A] @ ''Choose [1-'' @ fmt_d_int (int (length options)) @ '']: ''"

definition pick_message :: "string list \<Rightarrow> string" where
  "pick_message options =
     ''Pick a number between 1 and '' @ fmt_d_int (int (length options)) @ ''.'' @ [CHR 0x0A]"

definition chosen_message :: "string \<Rightarrow> string" where
  "chosen_message chosen = ''-> '' @ chosen @ [CHR 0x0A, CHR 0x0A]"

text \<open>
  \<^verbatim>\<open>
  for {
      fmt.Printf("\nChoose [1-%d]: ", len(input.Options))
      if !playerScanner.Scan() {
          return fantasy.NewTextResponse("The player has left the game."), nil
      }
      text := strings.TrimSpace(playerScanner.Text())
      choice, err := strconv.Atoi(text)
      if err != nil || choice < 1 || choice > len(input.Options) {
          fmt.Printf("Pick a number between 1 and %d.\n", len(input.Options))
          continue
      }
      chosen := input.Options[choice-1]
      fmt.Printf("-> %s\n\n", chosen)
      return fantasy.NewTextResponse(fmt.Sprintf("The player chose: %s", chosen)), nil
  }
  \<close>
  The loop may run forever: \<open>None\<close> is a call that never returns. A call that returns
  gives the tool result, the scanner's new position and the output.
\<close>

partial_function (option) askPlayer_loop ::
  "string list \<Rightarrow> stdin \<Rightarrow> nat \<Rightarrow> string \<Rightarrow> (tool_result \<times> nat \<times> string) option"
where
  "askPlayer_loop options stdin pos out =
     (case stdin pos of
        None \<Rightarrow>
          Some ((NewTextResponse ''The player has left the game.'', None),
                pos, out @ choose_prompt options)
      | Some line \<Rightarrow>
          (case Atoi (TrimSpace line) of
             None \<Rightarrow>
               askPlayer_loop options stdin (Suc pos)
                 (out @ choose_prompt options @ pick_message options)
           | Some choice \<Rightarrow>
               if choice <s 1 \<or> int (length options) < sint choice
               then askPlayer_loop options stdin (Suc pos)
                      (out @ choose_prompt options @ pick_message options)
               else Some ((NewTextResponse
                             (''The player chose: '' @ options ! nat (sint choice - 1)), None),
                          Suc pos,
                          out @ choose_prompt options
                            @ chosen_message (options ! nat (sint choice - 1)))))"

text \<open>
  The lines on which the loop takes its \<open>continue\<close> branch:
  \<open>err != nil || choice < 1 || choice > len(input.Options)\<close>.
\<close>

definition rejected :: "string list \<Rightarrow> string \<Rightarrow> bool" where
  "rejected options line =
     (case Atoi (TrimSpace line) of
        None \<Rightarrow> True
      | Some choice \<Rightarrow> choice <s 1 \<or> int (length options) < sint choice)"

text \<open>The two returns of the loop, and what a rejected line prints.\<close>

definition player_left :: "string list \<Rightarrow> nat \<Rightarrow> string \<Rightarrow> tool_result \<times> nat \<times> string" where
  "player_left options pos out =
     ((NewTextResponse ''The player has left the game.'', None), pos, out @ choose_prompt options)"

definition player_chose :: "string list \<Rightarrow> go_int \<Rightarrow> nat \<Rightarrow> string \<Rightarrow> tool_result \<times> nat \<times> string" where
  "player_chose options choice pos out =
     ((NewTextResponse (''The player chose: '' @ options ! nat (sint choice - 1)), None),
      Suc pos,
      out @ choose_prompt options @ chosen_message (options ! nat (sint choice - 1)))"

definition reprompt :: "string list \<Rightarrow> string" where
  "reprompt options = choose_prompt options @ pick_message options"

definition reprompts :: "string list \<Rightarrow> nat \<Rightarrow> string" where
  "reprompts options k = concat (replicate k (reprompt options))"

definition turn_header :: "askPlayerInput \<Rightarrow> string" where
  "turn_header input =
     [CHR 0x0A, CHR 0x0A] @ ''--- YOUR TURN ---'' @ [CHR 0x0A] @ Question input @ [CHR 0x0A, CHR 0x0A]
       @ concat (map (\<lambda>(i, opt). ''  '' @ fmt_d_int (int i + 1) @ ''. '' @ opt @ [CHR 0x0A])
                   (enumerate 0 (Options input)))"

definition askPlayer ::
  "stdin \<Rightarrow> nat \<Rightarrow> string \<Rightarrow> askPlayerInput \<Rightarrow> (tool_result \<times> nat \<times> string) option" where
  "askPlayer stdin pos out input =
     askPlayer_loop (Options input) stdin pos (out @ turn_header input)"

section \<open>Tools: lookup_monster and lookup_spell\<close>

text \<open>
  What \<open>json.Unmarshal\<close> stores in an \<open>any\<close>: \<open>nil\<close>, a \<open>bool\<close>, a \<open>float64\<close> (the type
  parameter \<open>'f\<close>), a \<open>string\<close>, a \<open>[]any\<close> or a \<open>map[string]any\<close> (its entries as a
  list; iteration follows the list).
\<close>

datatype 'f any =
    JNil
  | JBool bool
  | JFloat64 'f
  | JString string
  | JSlice "'f any list"
  | JMap "(string \<times> 'f any) list"

text \<open>\<open>m[key]\<close>: \<open>nil\<close> for a key that is absent (also on a nil map).\<close>

definition index :: "(string \<times> 'f any) list \<Rightarrow> string \<Rightarrow> 'f any" where
  "index m key = (case map_of m key of None \<Rightarrow> JNil | Some v \<Rightarrow> v)"

text \<open>
  How \<open>fmt\<close> renders an \<open>any\<close> under \<open>%v\<close> and under \<open>%s\<close> is the library's business
  (it never panics on these values); the two renderings are parameters.
\<close>

record 'f fmt =
  verb_v :: "'f any \<Rightarrow> string"
  verb_s :: "'f any \<Rightarrow> string"

definition formatAC :: "'f fmt \<Rightarrow> 'f any \<Rightarrow> string" where
  "formatAC f ac =
     (case ac of
        JSlice arr \<Rightarrow>
          if 0 < length arr
          then (case arr ! 0 of JMap m \<Rightarrow> verb_v f (index m ''value'') | _ \<Rightarrow> ''?'')
          else ''?''
      | _ \<Rightarrow> ''?'')"

definition formatSpeed :: "'f fmt \<Rightarrow> 'f any \<Rightarrow> string" where
  "formatSpeed f speed =
     (case speed of
        JMap m \<Rightarrow> Join (map (\<lambda>(k, v). k @ '' '' @ verb_v f v) m) '', ''
      | _ \<Rightarrow> ''?'')"

definition formatSchool :: "'f fmt \<Rightarrow> 'f any \<Rightarrow> string" where
  "formatSchool f school =
     (case school of JMap m \<Rightarrow> verb_v f (index m ''name'') | _ \<Rightarrow> ''?'')"

text \<open>The dynamic type named by the panic of a failed type assertion.\<close>

definition type_name :: "'f any \<Rightarrow> string" where
  "type_name a =
     (case a of
        JNil \<Rightarrow> ''nil'' | JBool b \<Rightarrow> ''bool'' | JFloat64 x \<Rightarrow> ''float64'' | JString s \<Rightarrow> ''string''
      | JSlice xs \<Rightarrow> ''[]interface {}'' | JMap m \<Rightarrow> ''map[string]interface {}'')"

text \<open>
  \<^verbatim>\<open>
  for _, a := range actions {
      act := a.(map[string]any)
      summary += fmt.Sprintf("\n- %s: %s", act["name"], act["desc"])
  }
  \<close>
  The same loop runs over \<open>special_abilities\<close>. The type assertion has no \<open>ok\<close>
  result: it panics on an element that is not a map.
\<close>

fun append_entries :: "'f fmt \<Rightarrow> string \<Rightarrow> 'f any list \<Rightarrow> panic + string" where
  "append_entries f summary [] = Inr summary"
| "append_entries f summary (a # as) =
     (case a of
        JMap act \<Rightarrow>
          append_entries f
            (summary @ [CHR 0x0A] @ ''- '' @ verb_s f (index act ''name'') @ '': ''
               @ verb_s f (index act ''desc'')) as
      | _ \<Rightarrow>
          Inl (Panic (''interface conversion: interface {} is '' @ type_name a
                        @ '', not map[string]interface {}'')))"

text \<open>
  \<open>http.Get(url)\<close>: an error, or a response with its status code and its body. The
  decoding of the body by \<open>json.Unmarshal\<close> into a \<open>map[string]any\<close> (left nil, that is
  empty, when the body is no JSON object) is a parameter too.
\<close>

record Response =
  StatusCode :: int
  Body :: string

type_synonym http_Get = "string \<Rightarrow> go_error + Response"

type_synonym 'f Unmarshal = "string \<Rightarrow> (string \<times> 'f any) list"

text \<open>\<open>strings.ReplaceAll(s, " ", "-")\<close>.\<close>

definition ReplaceAll_space :: "string \<Rightarrow> string" where
  "ReplaceAll_space s = map (\<lambda>c. if c = CHR '' '' then CHR ''-'' else c) s"

text \<open>\<open>slug := strings.ToLower(strings.ReplaceAll(input.Name, " ", "-"))\<close>\<close>

definition slug :: "string \<Rightarrow> string" where
  "slug name = ToLower (ReplaceAll_space name)"

record monsterQuery =
  Name :: string

definition monster_summary :: "'f fmt \<Rightarrow> (string \<times> 'f any) list \<Rightarrow> string" where
  "monster_summary f m =
     verb_s f (index m ''name'') @ '' ('' @ verb_s f (index m ''size'') @ '' ''
       @ verb_s f (index m ''type'') @ '', CR '' @ verb_v f (index m ''challenge_rating'')
       @ '') | AC '' @ formatAC f (index m ''armor_class'')
       @ '' | HP '' @ verb_v f (index m ''hit_points'')
       @ '' ('' @ verb_v f (index m ''hit_dice'') @ '')'' @ [CHR 0x0A]
       @ ''STR '' @ verb_v f (index m ''strength'') @ '' DEX '' @ verb_v f (index m ''dexterity'')
       @ '' CON '' @ verb_v f (index m ''constitution'')
       @ '' INT '' @ verb_v f (index m ''intelligence'')
       @ '' WIS '' @ verb_v f (index m ''wisdom'') @ '' CHA '' @ verb_v f (index m ''charisma'')
       @ '' | Speed: '' @ formatSpeed f (index m ''speed'')"

definition not_found :: "string \<Rightarrow> string \<Rightarrow> string" where
  "not_found kind name = kind @ '' '' @ [CHR 0x27] @ name @ [CHR 0x27] @ '' not found''"

text \<open>
  \<^verbatim>\<open>
  if actions, ok := m["actions"].([]any); ok {
      summary += "\nActions:"
      for _, a := range actions { ... }
  }
  \<close>
  and the same for \<open>special_abilities\<close>.
\<close>

definition add_section :: "'f fmt \<Rightarrow> string \<Rightarrow> string \<Rightarrow> 'f any \<Rightarrow> panic + string" where
  "add_section f summary title field =
     (case field of
        JSlice entries \<Rightarrow> append_entries f (summary @ [CHR 0x0A] @ title) entries
      | _ \<Rightarrow> Inr summary)"

definition lookupMonster ::
  "http_Get \<Rightarrow> 'f Unmarshal \<Rightarrow> 'f fmt \<Rightarrow> monsterQuery \<Rightarrow> panic + tool_result" where
  "lookupMonster get unmarshal f input =
     (case get (''https://www.dnd5eapi.co/api/monsters/'' @ slug (Name input)) of
           Inl err \<Rightarrow> Inr (NewTextResponse ''Failed to reach D&D API'', None)
         | Inr resp \<Rightarrow>
             if StatusCode resp \<noteq> 200
             then Inr (NewTextResponse (not_found ''Monster'' (Name input)), None)
             else
               (let m = unmarshal (Body resp)
                in (case add_section f (monster_summary f m) ''Actions:'' (index m ''actions'') of
                      Inl p \<Rightarrow> Inl p
                    | Inr summary \<Rightarrow>
                        (case add_section f summary ''Special Abilities:''
                                (index m ''special_abilities'') of
                           Inl p \<Rightarrow> Inl p
                         | Inr summary \<Rightarrow> Inr (NewTextResponse summary, None)))))"

record spellQuery =
  spell_Name :: string

definition spell_summary :: "'f fmt \<Rightarrow> (string \<times> 'f any) list \<Rightarrow> string" where
  "spell_summary f s =
     (let desc = (case index s ''desc'' of
                    JSlice descs \<Rightarrow> if 0 < length descs then verb_v f (descs ! 0) else []
                  | _ \<Rightarrow> []);
          summary =
            verb_s f (index s ''name'') @ '' (Level '' @ verb_v f (index s ''level'') @ '' ''
              @ formatSchool f (index s ''school'') @ '') | '' @ verb_s f (index s ''casting_time'')
              @ '' | Range: '' @ verb_s f (index s ''range'')
              @ '' | Duration: '' @ verb_s f (index s ''duration'') @ [CHR 0x0A]
              @ ''Components: '' @ verb_v f (index s ''components'') @ [CHR 0x0A] @ desc
      in case index s ''damage'' of
           JMap dmg \<Rightarrow>
             (case index dmg ''damage_at_slot_level'' of
                JMap atSlot \<Rightarrow>
                  summary @ [CHR 0x0A] @ ''Damage by slot:''
                    @ concat (map (\<lambda>(lvl, dice). '' L'' @ lvl @ ''='' @ verb_v f dice) atSlot)
              | _ \<Rightarrow> summary)
         | _ \<Rightarrow> summary)"

definition lookupSpell ::
  "http_Get \<Rightarrow> 'f Unmarshal \<Rightarrow> 'f fmt \<Rightarrow> spellQuery \<Rightarrow> panic + tool_result" where
  "lookupSpell get unmarshal f input =
     (case get (''https://www.dnd5eapi.co/api/spells/'' @ slug (spell_Name input)) of
           Inl err \<Rightarrow> Inr (NewTextResponse ''Failed to reach D&D API'', None)
         | Inr resp \<Rightarrow>
             if StatusCode resp \<noteq> 200
             then Inr (NewTextResponse (not_found ''Spell'' (spell_Name input)), None)
             else Inr (NewTextResponse (spell_summary f (unmarshal (Body resp))), None))"

section \<open>The game loop\<close>

text \<open>
  The agent is an external collaborator. \<open>Stream w n prompt messages\<close> is what the
  \<open>n\<close>-th call of \<open>agent.Stream\<close> returns for this prompt and history: an error, or a
  result with its steps. \<open>sigCtx_Err w n\<close> is \<open>sigCtx.Err()\<close> as read after that call
  (\<open>None\<close> is \<open>nil\<close>: the base context is not cancelled). The expiry of the turn's own
  30 minute timeout is one of the errors \<open>Stream\<close> may return.
\<close>

record 'm StepResult =
  Messages :: "'m list"

record 'm AgentResult =
  Steps :: "'m StepResult list"

record 'm world =
  Stream :: "nat \<Rightarrow> string \<Rightarrow> 'm list \<Rightarrow> go_error + 'm AgentResult"
  sigCtx_Err :: "nat \<Rightarrow> go_error option"

definition DeadlineExceeded :: go_error where
  "DeadlineExceeded = Error ''context deadline exceeded''"

definition Canceled :: go_error where
  "Canceled = Error ''context canceled''"

text \<open>
  \<^verbatim>\<open>
  for _, step := range result.Steps {
      history = append(history, step.Messages...)
  }
  \<close>
\<close>

fun append_steps :: "'m list \<Rightarrow> 'm StepResult list \<Rightarrow> 'm list" where
  "append_steps history [] = history"
| "append_steps history (step # steps) = append_steps (history @ Messages step) steps"

text \<open>The variables of \<open>gameLoop\<close>, and the text printed so far.\<close>

record 'm loop_state =
  history :: "'m list"
  prompt :: string
  stdout :: string

text \<open>
  One iteration of the loop, the \<open>n\<close>-th: \<open>Inl\<close> is a return of \<open>gameLoop\<close> (with the
  error returned, \<open>None\<close> for \<open>nil\<close>), \<open>Inr\<close> the variables the next iteration starts with.
\<close>

definition turn ::
  "'m world \<Rightarrow> nat \<Rightarrow> 'm loop_state \<Rightarrow> (go_error option \<times> 'm loop_state) + 'm loop_state" where
  "turn w n s =
     (case Stream w n (prompt s) (history s) of
        Inl err \<Rightarrow>
          if sigCtx_Err w n \<noteq> None
          then Inl (None, s\<lparr>stdout := stdout s @ [CHR 0x0A, CHR 0x0A] @ ''--- Thanks for playing! ---''
                                   @ [CHR 0x0A]\<rparr>)
          else Inl (Some (Errorf_w ''stream: '' err), s)
      | Inr result \<Rightarrow>
          Inr \<lparr>history = append_steps (history s) (Steps result),
               prompt = ''Continue.'',
               stdout = stdout s @ [CHR 0x0A]\<rparr>)"

text \<open>
  The loop from its \<open>n\<close>-th iteration on. It has no exit but the two returns: \<open>None\<close> is a
  loop that runs forever. A return gives the error and the variables at that point.
\<close>

partial_function (option) gameLoop_from ::
  "'m world \<Rightarrow> nat \<Rightarrow> 'm loop_state \<Rightarrow> (go_error option \<times> 'm loop_state) option"
where
  "gameLoop_from w n s =
     (case turn w n s of
        Inl r \<Rightarrow> Some r
      | Inr s' \<Rightarrow> gameLoop_from w (Suc n) s')"

definition initial :: "'m loop_state" where
  "initial = \<lparr>history = [], prompt = ''Begin.'',
              stdout = ''=== D&D 5e ==='' @ [CHR 0x0A] @ ''Press Ctrl+C to quit'' @ [CHR 0x0A, CHR 0x0A]\<rparr>"

definition gameLoop :: "'m world \<Rightarrow> (go_error option \<times> 'm loop_state) option" where
  "gameLoop w = gameLoop_from w 0 initial"

text \<open>
  The variables at the head of iteration \<open>n + k\<close>, for a loop that is at the head of
  iteration \<open>n\<close> with the variables \<open>s\<close>; \<open>None\<close> when the loop has returned before.
\<close>

fun after_turns :: "'m world \<Rightarrow> nat \<Rightarrow> nat \<Rightarrow> 'm loop_state \<Rightarrow> 'm loop_state option" where
  "after_turns w 0 n s = Some s"
| "after_turns w (Suc k) n s =
     (case turn w n s of Inl r \<Rightarrow> None | Inr s' \<Rightarrow> after_turns w k (Suc n) s')"

section \<open>Properties of the dice tool\<close>

lemma sint_draw:
  assumes "0 \<le> n" "n < sint (sides :: go_int)"
  shows "sint (word_of_int n + 1 :: go_int) = n + 1"
proof -
  have "sint sides < 2 ^ 63" using sint_lt [of sides] by simp
  then have "n + 1 < 2 ^ 63" using assms by linarith
  moreover have "- (2 ^ 63) \<le> n + 1" using assms by simp
  ultimately have "signed_take_bit (63::nat) (n + 1) = n + 1"
    by (intro signed_take_bit_int_eq_self) simp_all
  moreover have "sint (word_of_int (n + 1) :: go_int) = signed_take_bit (63::nat) (n + 1)"
    by (simp only: signed_of_int) simp
  ultimately show ?thesis by simp
qed

text \<open>
  The invariant of the roll loop: at the head of iteration \<open>i\<close> the first \<open>i\<close> slots of
  \<open>rolls\<close> are final, and the loop fills the others with outcomes in range and adds
  them to the total.
\<close>

lemma roll_loop_inv:
  assumes "entropy_ok rnd" "0 < sint sides"
  shows "length rolls = nat (sint count) \<Longrightarrow> i \<le> length rolls \<Longrightarrow>
    \<exists>rs. roll_loop rnd sides count i rolls tot = Inr (take i rolls @ rs, tot + sum_list rs)
       \<and> length rs = nat (sint count) - i
       \<and> (\<forall>r\<in>set rs. 1 \<le>s r \<and> r \<le>s sides)"
  using assms
proof (induction rnd sides count i rolls tot rule: roll_loop.induct)
  case (1 rnd sides count i rolls tot)
  show ?case
  proof (cases "int i < sint count")
    case False
    then have "i = length rolls" using 1(2,3) by linarith
    moreover have "roll_loop rnd sides count i rolls tot = Inr (rolls, tot)"
      using False by (subst roll_loop.simps) simp
    ultimately show ?thesis using 1(2) by simp
  next
    case True
    define n where "n = rnd i (sint sides)"
    define r :: go_int where "r = word_of_int n + 1"
    have n: "0 \<le> n" "n < sint sides"
      using 1(4,5) by (simp_all add: entropy_ok_def n_def)
    have rI: "rand_Int rnd i sides = Inr n"
      using 1(5) by (simp add: rand_Int_def n_def)
    have i: "i < length rolls" using True 1(2) by linarith
    have sr: "sint r = n + 1" unfolding r_def using n by (rule sint_draw)
    have r: "1 \<le>s r" "r \<le>s sides"
      using n sr by (simp_all add: word_sle_eq)
    have step: "roll_loop rnd sides count i rolls tot
        = roll_loop rnd sides count (Suc i) (rolls[i := r]) (tot + r)"
      using True rI i by (subst roll_loop.simps) (simp add: r_def)
    have "\<exists>rs. roll_loop rnd sides count (Suc i) (rolls[i := r]) (tot + r)
          = Inr (take (Suc i) (rolls[i := r]) @ rs, (tot + r) + sum_list rs)
        \<and> length rs = nat (sint count) - Suc i
        \<and> (\<forall>r\<in>set rs. 1 \<le>s r \<and> r \<le>s sides)"
      using "1.IH" [OF True rI] i 1(2,4,5) True
      by (simp add: r_def)
    then obtain rs where rs:
      "roll_loop rnd sides count (Suc i) (rolls[i := r]) (tot + r)
          = Inr (take (Suc i) (rolls[i := r]) @ rs, (tot + r) + sum_list rs)"
      "length rs = nat (sint count) - Suc i"
      "\<forall>r\<in>set rs. 1 \<le>s r \<and> r \<le>s sides"
      by blast
    have tk: "take (Suc i) (rolls[i := r]) = take i rolls @ [r]"
      using i by (simp add: take_Suc_conv_app_nth)
    have "roll_loop rnd sides count i rolls tot
        = Inr (take i rolls @ (r # rs), tot + sum_list (r # rs))"
      using step rs(1) tk by (simp add: add.assoc)
    moreover have "length (r # rs) = nat (sint count) - i"
      using rs(2) i 1(2) by simp
    moreover have "\<forall>x\<in>set (r # rs). 1 \<le>s x \<and> x \<le>s sides"
      using rs(3) r by simp
    ultimately show ?thesis by blast
  qed
qed

lemma roll_ok:
  assumes "entropy_ok rnd" "1 \<le>s count" "1 \<le>s sides"
  shows "\<exists>rolls tot. roll rnd count sides modifier = Inr (rolls, tot)
     \<and> length rolls = nat (sint count)
     \<and> (\<forall>r\<in>set rolls. 1 \<le>s r \<and> r \<le>s sides)
     \<and> tot = sum_list rolls + modifier"
proof -
  have c: "0 < sint count" and s: "0 < sint sides"
    using assms(2,3) by (simp_all add: word_sle_eq)
  obtain rs where rs:
    "roll_loop rnd sides count 0 (replicate (nat (sint count)) 0) 0
       = Inr (take 0 (replicate (nat (sint count)) 0) @ rs, 0 + sum_list rs)"
    "length rs = nat (sint count) - 0"
    "\<forall>r\<in>set rs. 1 \<le>s r \<and> r \<le>s sides"
    using roll_loop_inv [OF assms(1) s,
        where rolls = "replicate (nat (sint count)) 0" and count = count and i = 0 and tot = 0]
    by auto
  show ?thesis using rs c by (simp add: roll_def)
qed








section \<open>Properties of the player's choice\<close>

lemma reject_step:
  assumes "stdin pos = Some line" and "rejected options line"
  shows "askPlayer_loop options stdin pos out
       = askPlayer_loop options stdin (Suc pos) (out @ reprompt options)"
  using assms
  by (subst askPlayer_loop.simps) (auto simp: rejected_def reprompt_def split: option.splits)

lemma accept_step:
  assumes "stdin pos = Some line" and "Atoi (TrimSpace line) = Some c"
      and "1 \<le>s c" and "sint c \<le> int (length options)"
  shows "askPlayer_loop options stdin pos out = Some (player_chose options c pos out)"
  using assms
  by (subst askPlayer_loop.simps) (auto simp: player_chose_def word_sle_eq word_sless_alt)

lemma closed_step:
  assumes "stdin pos = None"
  shows "askPlayer_loop options stdin pos out = Some (player_left options pos out)"
  using assms by (subst askPlayer_loop.simps) (simp add: player_left_def)

lemma reprompts_Suc: "reprompts options (Suc k) = reprompt options @ reprompts options k"
  by (simp add: reprompts_def)

lemma reject_many:
  assumes "\<forall>i<k. \<exists>line. stdin (pos + i) = Some line \<and> rejected options line"
  shows "askPlayer_loop options stdin pos out
       = askPlayer_loop options stdin (pos + k) (out @ reprompts options k)"
  using assms
proof (induction k arbitrary: pos out)
  case 0
  then show ?case by (simp add: reprompts_def)
next
  case (Suc k)
  from Suc.prems obtain line where l: "stdin pos = Some line" "rejected options line"
    by force
  have "\<forall>i<k. \<exists>line. stdin (Suc pos + i) = Some line \<and> rejected options line"
    using Suc.prems by (metis Suc_less_eq add_Suc_shift)
  from Suc.IH [OF this] reject_step [where stdin = stdin and options = options, OF l]
  show ?case by (simp add: reprompts_Suc)
qed

text \<open>
  A call of the loop that returns has read some rejected lines and then either found the
  stream closed or read a line with a choice in range.
\<close>

lemma loop_returns:
  assumes "askPlayer_loop options stdin pos out = Some y"
  shows "\<exists>k. (\<forall>i<k. \<exists>line. stdin (pos + i) = Some line \<and> rejected options line)
       \<and> (stdin (pos + k) = None \<and> y = player_left options (pos + k) (out @ reprompts options k)
          \<or> (\<exists>line c. stdin (pos + k) = Some line \<and> Atoi (TrimSpace line) = Some c
                \<and> 1 \<le>s c \<and> sint c \<le> int (length options)
                \<and> y = player_chose options c (pos + k) (out @ reprompts options k)))"
proof -
  define P where "P = (\<lambda>(options :: string list) (stdin :: stdin) pos out
        (y :: tool_result \<times> nat \<times> string).
     \<exists>k. (\<forall>i<k. \<exists>line. stdin (pos + i) = Some line \<and> rejected options line)
       \<and> (stdin (pos + k) = None \<and> y = player_left options (pos + k) (out @ reprompts options k)
          \<or> (\<exists>line c. stdin (pos + k) = Some line \<and> Atoi (TrimSpace line) = Some c
                \<and> 1 \<le>s c \<and> sint c \<le> int (length options)
                \<and> y = player_chose options c (pos + k) (out @ reprompts options k))))"
  have "P options stdin pos out y"
  proof (rule askPlayer_loop.raw_induct [where P = P, OF _ assms])
    fix loop :: "string list \<Rightarrow> stdin \<Rightarrow> nat \<Rightarrow> string \<Rightarrow> (tool_result \<times> nat \<times> string) option"
    fix options stdin pos out y
    assume IH: "\<And>options stdin pos out y.
      loop options stdin pos out = Some y \<Longrightarrow> P options stdin pos out y"
    assume body: "(case stdin pos of
        None \<Rightarrow>
          Some ((NewTextResponse ''The player has left the game.'', None),
                pos, out @ choose_prompt options)
      | Some line \<Rightarrow>
          (case Atoi (TrimSpace line) of
             None \<Rightarrow>
               loop options stdin (Suc pos)
                 (out @ choose_prompt options @ pick_message options)
           | Some choice \<Rightarrow>
               if choice <s 1 \<or> int (length options) < sint choice
               then loop options stdin (Suc pos)
                      (out @ choose_prompt options @ pick_message options)
               else Some ((NewTextResponse
                             (''The player chose: '' @ options ! nat (sint choice - 1)), None),
                          Suc pos,
                          out @ choose_prompt options
                            @ chosen_message (options ! nat (sint choice - 1))))) = Some y"
    show "P options stdin pos out y"
    proof (cases "stdin pos")
      case None
      then have "y = player_left options pos out"
        using body by (simp add: player_left_def)
      then have "(\<forall>i<0::nat. \<exists>line. stdin (pos + i) = Some line \<and> rejected options line)
         \<and> (stdin (pos + 0) = None \<and> y = player_left options (pos + 0) (out @ reprompts options 0))"
        using None by (simp add: reprompts_def)
      then show ?thesis unfolding P_def by blast
    next
      case (Some line)
      show ?thesis
      proof (cases "rejected options line")
        case False
        then obtain c where c: "Atoi (TrimSpace line) = Some c" "1 \<le>s c"
          "sint c \<le> int (length options)"
          by (auto simp: rejected_def word_sle_eq word_sless_alt split: option.splits)
        then have "y = player_chose options c pos out"
          using body Some by (auto simp: player_chose_def word_sle_eq word_sless_alt)
        then have "(\<forall>i<0::nat. \<exists>line. stdin (pos + i) = Some line \<and> rejected options line)
           \<and> (\<exists>line c. stdin (pos + 0) = Some line \<and> Atoi (TrimSpace line) = Some c
                \<and> 1 \<le>s c \<and> sint c \<le> int (length options)
                \<and> y = player_chose options c (pos + 0) (out @ reprompts options 0))"
          using Some c by (simp add: reprompts_def)
        then show ?thesis unfolding P_def by blast
      next
        case True
        then have "loop options stdin (Suc pos) (out @ reprompt options) = Some y"
          using body Some
          by (auto simp: rejected_def reprompt_def split: option.splits if_splits)
        from IH [OF this] obtain k where k:
          "\<forall>i<k. \<exists>line. stdin (Suc pos + i) = Some line \<and> rejected options line"
          "stdin (Suc pos + k) = None
              \<and> y = player_left options (Suc pos + k) ((out @ reprompt options) @ reprompts options k)
           \<or> (\<exists>line c. stdin (Suc pos + k) = Some line \<and> Atoi (TrimSpace line) = Some c
                \<and> 1 \<le>s c \<and> sint c \<le> int (length options)
                \<and> y = player_chose options c (Suc pos + k)
                       ((out @ reprompt options) @ reprompts options k))"
          unfolding P_def by blast
        have all: "\<forall>i<Suc k. \<exists>line. stdin (pos + i) = Some line \<and> rejected options line"
        proof (intro allI impI)
          fix i assume i: "i < Suc k"
          show "\<exists>line. stdin (pos + i) = Some line \<and> rejected options line"
          proof (cases i)
            case 0
            then show ?thesis using Some True by simp
          next
            case (Suc j)
            then have "j < k" using i by simp
            then show ?thesis using k(1) Suc by simp
          qed
        qed
        have "stdin (pos + Suc k) = None
              \<and> y = player_left options (pos + Suc k) (out @ reprompts options (Suc k))
           \<or> (\<exists>line c. stdin (pos + Suc k) = Some line \<and> Atoi (TrimSpace line) = Some c
                \<and> 1 \<le>s c \<and> sint c \<le> int (length options)
                \<and> y = player_chose options c (pos + Suc k) (out @ reprompts options (Suc k)))"
          using k(2) by (simp add: reprompts_Suc)
        with all show ?thesis unfolding P_def by blast
      qed
    qed
  qed
  then show ?thesis by (simp add: P_def)
qed

lemma rejected_no_options: "rejected [] line"
  by (auto simp: rejected_def word_sless_alt split: option.splits)


lemma never_accepted_never_returns:
  assumes "\<forall>i. \<exists>line. stdin (pos + i) = Some line \<and> rejected options line"
  shows "askPlayer_loop options stdin pos out = None"
proof (cases "askPlayer_loop options stdin pos out")
  case None
  then show ?thesis .
next
  case (Some y)
  from loop_returns [OF Some] obtain k where
    "stdin (pos + k) = None
     \<or> (\<exists>line c. stdin (pos + k) = Some line \<and> Atoi (TrimSpace line) = Some c
           \<and> 1 \<le>s c \<and> sint c \<le> int (length options))"
    by blast
  moreover obtain line where "stdin (pos + k) = Some line" "rejected options line"
    using assms by blast
  ultimately show ?thesis
    by (auto simp: rejected_def word_sle_eq word_sless_alt)
qed

text \<open>
  C4. With a non-empty options list, after any number \<open>k\<close> of lines that do not parse or
  are out of range (each one re-prompts and the call goes on to the next line), a line
  that parses as \<open>c\<close> with \<open>1 \<le> c \<le> len(options)\<close> returns the response naming
  \<open>options[c-1]\<close>, the closure of the stream returns the ``player left'' response, and a
  stream of rejected lines that never closes is a call that never returns.
\<close>

theorem askPlayer_choice:
  assumes "Options input \<noteq> []"
      and "\<forall>i<k. \<exists>line. stdin (pos + i) = Some line \<and> rejected (Options input) line"
  shows "(\<forall>line c. stdin (pos + k) = Some line \<and> Atoi (TrimSpace line) = Some c
            \<and> 1 \<le>s c \<and> sint c \<le> int (length (Options input)) \<longrightarrow>
          askPlayer stdin pos out input
            = Some ((NewTextResponse
                       (''The player chose: '' @ Options input ! nat (sint c - 1)), None),
                    Suc (pos + k),
                    out @ turn_header input @ reprompts (Options input) k
                      @ choose_prompt (Options input)
                      @ chosen_message (Options input ! nat (sint c - 1))))
       \<and> (stdin (pos + k) = None \<longrightarrow>
          askPlayer stdin pos out input
            = Some ((NewTextResponse ''The player has left the game.'', None),
                    pos + k,
                    out @ turn_header input @ reprompts (Options input) k
                      @ choose_prompt (Options input)))
       \<and> ((\<forall>i. \<exists>line. stdin (pos + i) = Some line \<and> rejected (Options input) line) \<longrightarrow>
          askPlayer stdin pos out input = None)"
proof -
  have go: "askPlayer stdin pos out input
      = askPlayer_loop (Options input) stdin (pos + k)
          ((out @ turn_header input) @ reprompts (Options input) k)"
    unfolding askPlayer_def using assms(2) by (rule reject_many)
  have "askPlayer stdin pos out input
      = Some (player_chose (Options input) c (pos + k)
                ((out @ turn_header input) @ reprompts (Options input) k))"
    if "stdin (pos + k) = Some line" "Atoi (TrimSpace line) = Some c" "1 \<le>s c"
       "sint c \<le> int (length (Options input))" for line c
    using go accept_step [where stdin = stdin and pos = "pos + k" and options = "Options input",
        OF that] by simp
  moreover have "askPlayer stdin pos out input
      = Some (player_left (Options input) (pos + k)
                ((out @ turn_header input) @ reprompts (Options input) k))"
    if "stdin (pos + k) = None"
    using go closed_step [where stdin = stdin and pos = "pos + k", OF that] by simp
  moreover have "askPlayer stdin pos out input = None"
    if "\<forall>i. \<exists>line. stdin (pos + i) = Some line \<and> rejected (Options input) line"
    unfolding askPlayer_def using that by (rule never_accepted_never_returns)
  ultimately show ?thesis
    by (simp add: player_chose_def player_left_def)
qed

theorem askPlayer_choice_witness:
  "Options \<lparr>Question = ''Which way?'', Options = [''North'', ''East'', ''South'', ''West'', ''Wait'']\<rparr> \<noteq> []
   \<and> rejected [''North'', ''East'', ''South'', ''West'', ''Wait''] ''abc''
   \<and> rejected [''North'', ''East'', ''South'', ''West'', ''Wait''] ''9''
   \<and> (\<exists>out. askPlayer (\<lambda>i. if i = 0 then Some ''abc'' else if i = 1 then Some ''9''
                             else if i = 2 then Some ''3'' else None) 0 []
          \<lparr>Question = ''Which way?'', Options = [''North'', ''East'', ''South'', ''West'', ''Wait'']\<rparr>
        = Some ((NewTextResponse ''The player chose: South'', None), 3, out))"
proof -
  define opts where "opts = [''North'', ''East'', ''South'', ''West'', ''Wait'']"
  define input where "input = \<lparr>Question = ''Which way?'', Options = opts\<rparr>"
  define stdin :: stdin where
    "stdin = (\<lambda>i. if i = 0 then Some ''abc'' else if i = 1 then Some ''9''
                  else if i = 2 then Some ''3'' else None)"
  have r1: "rejected opts ''abc''" unfolding opts_def by code_simp
  have r2: "rejected opts ''9''" unfolding opts_def by code_simp
  have a: "Atoi (TrimSpace ''3'') = Some 3" by code_simp
  have ne: "Options input \<noteq> []" by (simp add: input_def opts_def)
  have rej: "\<forall>i<2. \<exists>line. stdin (0 + i) = Some line \<and> rejected (Options input) line"
  proof (intro allI impI)
    fix i :: nat assume "i < 2"
    then have "i = 0 \<or> i = 1" by auto
    then show "\<exists>line. stdin (0 + i) = Some line \<and> rejected (Options input) line"
      using r1 r2 by (auto simp: stdin_def input_def)
  qed
  have "stdin (0 + 2) = Some ''3'' \<and> Atoi (TrimSpace ''3'') = Some 3
      \<and> (1::go_int) \<le>s 3 \<and> sint (3::go_int) \<le> int (length (Options input))"
    using a by (simp add: stdin_def input_def opts_def word_sle_eq)
  with askPlayer_choice [OF ne rej, of "[]"]
  have "\<exists>out. askPlayer stdin 0 [] input
        = Some ((NewTextResponse (''The player chose: '' @ Options input ! nat (sint (3::go_int) - 1)), None), 3, out)"
    by (metis Suc_eq_plus1 add_2_eq_Suc' numeral_3_eq_3)
  then show ?thesis
    using ne r1 r2 by (simp add: input_def opts_def stdin_def)
qed

text \<open>
  C10. With an empty options list no line is ever accepted: every line is rejected and
  re-prompts, the call returns exactly when the stream closes, with the ``player left''
  response, and on a stream that never closes it never returns.
\<close>

theorem askPlayer_no_options:
  assumes "Options input = []"
  shows "(\<forall>line. rejected (Options input) line)
       \<and> (\<forall>k. (\<forall>i<k. stdin (pos + i) \<noteq> None) \<and> stdin (pos + k) = None \<longrightarrow>
            askPlayer stdin pos out input
              = Some ((NewTextResponse ''The player has left the game.'', None), pos + k,
                      out @ turn_header input @ reprompts [] k @ choose_prompt []))
       \<and> (\<forall>y. askPlayer stdin pos out input = Some y \<longrightarrow>
            (\<exists>k. (\<forall>i<k. stdin (pos + i) \<noteq> None) \<and> stdin (pos + k) = None
               \<and> y = ((NewTextResponse ''The player has left the game.'', None), pos + k,
                      out @ turn_header input @ reprompts [] k @ choose_prompt [])))
       \<and> ((\<forall>i. stdin (pos + i) \<noteq> None) \<longrightarrow> askPlayer stdin pos out input = None)"
proof -
  have rej: "\<forall>line. rejected (Options input) line"
    using assms by (simp add: rejected_no_options)
  have ret: "\<exists>k. (\<forall>i<k. stdin (pos + i) \<noteq> None) \<and> stdin (pos + k) = None
               \<and> y = ((NewTextResponse ''The player has left the game.'', None), pos + k,
                      out @ turn_header input @ reprompts [] k @ choose_prompt [])"
    if "askPlayer stdin pos out input = Some y" for y
  proof -
    from that have "askPlayer_loop [] stdin pos (out @ turn_header input) = Some y"
      by (simp add: askPlayer_def assms)
    from loop_returns [OF this] obtain k where k:
      "\<forall>i<k. \<exists>line. stdin (pos + i) = Some line \<and> rejected [] line"
      "stdin (pos + k) = None
         \<and> y = player_left [] (pos + k) ((out @ turn_header input) @ reprompts [] k)
       \<or> (\<exists>line c. stdin (pos + k) = Some line \<and> Atoi (TrimSpace line) = Some c
             \<and> 1 \<le>s c \<and> sint c \<le> int (length ([] :: string list))
             \<and> y = player_chose [] c (pos + k) ((out @ turn_header input) @ reprompts [] k))"
      by blast
    have "\<not> (1 \<le>s c \<and> sint c \<le> int (length ([] :: string list)))" for c :: go_int
      by (auto simp: word_sle_eq)
    with k(2) have "stdin (pos + k) = None"
      "y = player_left [] (pos + k) ((out @ turn_header input) @ reprompts [] k)"
      by blast+
    moreover have "\<forall>i<k. stdin (pos + i) \<noteq> None" using k(1) by auto
    ultimately show ?thesis by (auto simp: player_left_def)
  qed
  have closes: "askPlayer stdin pos out input
              = Some ((NewTextResponse ''The player has left the game.'', None), pos + k,
                      out @ turn_header input @ reprompts [] k @ choose_prompt [])"
    if "\<forall>i<k. stdin (pos + i) \<noteq> None" "stdin (pos + k) = None" for k
  proof -
    have "\<forall>i<k. \<exists>line. stdin (pos + i) = Some line \<and> rejected [] line"
      using that(1) by (auto simp: rejected_no_options)
    from reject_many [OF this] closed_step [where stdin = stdin and pos = "pos + k", OF that(2)]
    show ?thesis by (simp add: askPlayer_def assms player_left_def)
  qed
  have never: "askPlayer stdin pos out input = None" if "\<forall>i. stdin (pos + i) \<noteq> None"
  proof -
    have "\<forall>i. \<exists>line. stdin (pos + i) = Some line \<and> rejected [] line"
      using that by (auto simp: rejected_no_options)
    then show ?thesis
      by (simp add: askPlayer_def assms never_accepted_never_returns)
  qed
  show ?thesis using rej ret closes never by blast
qed

theorem askPlayer_no_options_witness:
  "Options \<lparr>Question = ''Which way?'', Options = []\<rparr> = []
   \<and> (\<exists>out. askPlayer (\<lambda>i. if i < 2 then Some ''1'' else None) 0 []
               \<lparr>Question = ''Which way?'', Options = []\<rparr>
        = Some ((NewTextResponse ''The player has left the game.'', None), 2, out))"
proof -
  define input where "input = \<lparr>Question = ''Which way?'', Options = []\<rparr>"
  define stdin :: stdin where "stdin = (\<lambda>i. if i < 2 then Some ''1'' else None)"
  have e: "Options input = []" by (simp add: input_def)
  have "(\<forall>i<2. stdin (0 + i) \<noteq> None) \<and> stdin (0 + 2) = None"
    by (simp add: stdin_def)
  with askPlayer_no_options [OF e, of stdin 0 "[]"]
  have "\<exists>out. askPlayer stdin 0 [] input
        = Some ((NewTextResponse ''The player has left the game.'', None), 2, out)"
    by (metis add_0)
  then show ?thesis using e by (simp add: input_def stdin_def)
qed

section \<open>Properties of the game loop\<close>

lemma append_steps_concat:
  "append_steps h steps = h @ concat (map Messages steps)"
  by (induction steps arbitrary: h) simp_all

lemma turn_failed:
  assumes "Stream w n (prompt s) (history s) = Inl err"
  shows "turn w n s =
     (if sigCtx_Err w n \<noteq> None
      then Inl (None, s\<lparr>stdout := stdout s @ [CHR 0x0A, CHR 0x0A] @ ''--- Thanks for playing! ---''
                                   @ [CHR 0x0A]\<rparr>)
      else Inl (Some (Errorf_w ''stream: '' err), s))"
  using assms by (simp add: turn_def)

lemma turn_succeeded:
  assumes "Stream w n (prompt s) (history s) = Inr result"
  shows "turn w n s =
     Inr \<lparr>history = history s @ concat (map Messages (Steps result)),
          prompt = ''Continue.'', stdout = stdout s @ [CHR 0x0A]\<rparr>"
  using assms by (simp add: turn_def append_steps_concat)

text \<open>A loop that has reached the head of a later iteration goes on from there.\<close>

lemma gameLoop_from_after_turns:
  "after_turns w k n s = Some s' \<Longrightarrow> gameLoop_from w n s = gameLoop_from w (n + k) s'"
proof (induction k arbitrary: n s)
  case 0
  then show ?case by simp
next
  case (Suc k)
  then obtain s1 where s1: "turn w n s = Inr s1" "after_turns w k (Suc n) s1 = Some s'"
    by (auto split: sum.splits)
  have "gameLoop_from w n s = gameLoop_from w (Suc n) s1"
    using s1(1) by (subst gameLoop_from.simps) simp
  with Suc.IH [OF s1(2)] show ?case by simp
qed

lemma after_turns_Suc:
  "after_turns w k n s = Some s' \<Longrightarrow>
   after_turns w (Suc k) n s = (case turn w (n + k) s' of Inl r \<Rightarrow> None | Inr s'' \<Rightarrow> Some s'')"
proof (induction k arbitrary: n s)
  case 0
  then show ?case by (simp split: sum.splits)
next
  case (Suc k)
  then obtain s1 where s1: "turn w n s = Inr s1" "after_turns w k (Suc n) s1 = Some s'"
    by (auto split: sum.splits)
  from Suc.IH [OF s1(2)] s1(1) show ?case by simp
qed

lemma turn_history_prefix: "turn w n s = Inr s' \<Longrightarrow> prefix (history s) (history s')"
  by (auto simp: turn_def append_steps_concat split: sum.splits if_splits)

lemma after_turns_prefix:
  "after_turns w k n s = Some s' \<Longrightarrow> prefix (history s) (history s')"
proof (induction k arbitrary: n s)
  case 0
  then show ?case by simp
next
  case (Suc k)
  then obtain s1 where s1: "turn w n s = Inr s1" "after_turns w k (Suc n) s1 = Some s'"
    by (auto split: sum.splits)
  from turn_history_prefix [OF s1(1)] Suc.IH [OF s1(2)] show ?case
    by (rule prefix_order.trans)
qed

text \<open>
  C7. In any iteration the loop reaches, a failure of the streamed generation ends the
  loop: when the base context is cancelled at that point the loop returns \<open>nil\<close> (after
  its farewell line), and when it is not cancelled, whatever the error (the expiry of the
  turn's timeout among them), the loop returns the error, wrapped.
\<close>

theorem gameLoop_failure:
  assumes "after_turns w n 0 initial = Some s"
      and "Stream w n (prompt s) (history s) = Inl err"
  shows "(sigCtx_Err w n \<noteq> None \<longrightarrow>
            gameLoop w = Some (None, s\<lparr>stdout := stdout s @ [CHR 0x0A, CHR 0x0A]
                                  @ ''--- Thanks for playing! ---'' @ [CHR 0x0A]\<rparr>))
       \<and> (sigCtx_Err w n = None \<longrightarrow>
            gameLoop w = Some (Some (Errorf_w ''stream: '' err), s))"
proof -
  have "gameLoop w = gameLoop_from w n s"
    using gameLoop_from_after_turns [OF assms(1)] by (simp add: gameLoop_def)
  also have "\<dots> = (case turn w n s of Inl r \<Rightarrow> Some r | Inr s' \<Rightarrow> gameLoop_from w (Suc n) s')"
    by (subst gameLoop_from.simps) simp
  finally show ?thesis using turn_failed [OF assms(2)] by simp
qed

theorem gameLoop_failure_witness:
  "after_turns \<lparr>Stream = (\<lambda>n p h. if n = 0 then Inr \<lparr>Steps = [\<lparr>Messages = [''scene'']\<rparr>]\<rparr>
                                    else Inl DeadlineExceeded),
                 sigCtx_Err = (\<lambda>n. None)\<rparr> 1 0 (initial :: string loop_state)
     = Some \<lparr>history = [''scene''], prompt = ''Continue.'', stdout = stdout (initial :: string loop_state) @ [CHR 0x0A]\<rparr>
   \<and> gameLoop \<lparr>Stream = (\<lambda>n p h. if n = 0 then Inr \<lparr>Steps = [\<lparr>Messages = [''scene'']\<rparr>]\<rparr>
                                    else Inl DeadlineExceeded),
                sigCtx_Err = (\<lambda>n. None)\<rparr>
     = Some (Some (Errorf_w ''stream: '' DeadlineExceeded),
             \<lparr>history = [''scene''], prompt = ''Continue.'', stdout = stdout (initial :: string loop_state) @ [CHR 0x0A]\<rparr>)
   \<and> gameLoop \<lparr>Stream = (\<lambda>n p h. Inl Canceled), sigCtx_Err = (\<lambda>n. Some Canceled)\<rparr>
     = Some (None, (initial :: string loop_state)\<lparr>stdout := stdout (initial :: string loop_state) @ [CHR 0x0A, CHR 0x0A]
                                  @ ''--- Thanks for playing! ---'' @ [CHR 0x0A]\<rparr>)"
proof -
  define w :: "string world" where
    "w = \<lparr>Stream = (\<lambda>n p h. if n = 0 then Inr \<lparr>Steps = [\<lparr>Messages = [''scene'']\<rparr>]\<rparr>
                                    else Inl DeadlineExceeded),
          sigCtx_Err = (\<lambda>n. None)\<rparr>"
  define s1 :: "string loop_state" where
    "s1 = \<lparr>history = [''scene''], prompt = ''Continue.'', stdout = stdout (initial :: string loop_state) @ [CHR 0x0A]\<rparr>"
  have a: "after_turns w 1 0 (initial :: string loop_state) = Some s1"
    by (simp add: w_def s1_def turn_def initial_def)
  have f: "Stream w 1 (prompt s1) (history s1) = Inl DeadlineExceeded"
    by (simp add: w_def)
  have n: "sigCtx_Err w 1 = None" by (simp add: w_def)
  have 1: "gameLoop w = Some (Some (Errorf_w ''stream: '' DeadlineExceeded), s1)"
    using gameLoop_failure [OF a f] n by simp
  define w2 :: "string world" where
    "w2 = \<lparr>Stream = (\<lambda>n p h. Inl Canceled), sigCtx_Err = (\<lambda>n. Some Canceled)\<rparr>"
  have a2: "after_turns w2 0 0 (initial :: string loop_state) = Some (initial :: string loop_state)" by simp
  have f2: "Stream w2 0 (prompt (initial :: string loop_state)) (history (initial :: string loop_state)) = Inl Canceled"
    by (simp add: w2_def)
  have 2: "gameLoop w2 = Some (None, (initial :: string loop_state)\<lparr>stdout := stdout (initial :: string loop_state) @ [CHR 0x0A, CHR 0x0A]
                                  @ ''--- Thanks for playing! ---'' @ [CHR 0x0A]\<rparr>)"
    using gameLoop_failure [OF a2 f2] by (simp add: w2_def)
  show ?thesis using a 1 2 unfolding w_def w2_def s1_def by simp
qed

text \<open>
  C8. In any iteration the loop reaches, a successful Turn leaves the loop at the head of
  the next iteration with the History it had, followed by the Messages of every Step, once
  each and in the order of the Steps, and with the prompt \<open>Continue.\<close>; the History the
  loop started with is a prefix of the History of every later iteration.
\<close>

theorem history_append_only:
  assumes "after_turns w k n s0 = Some s"
      and "Stream w (n + k) (prompt s) (history s) = Inr result"
  shows "\<exists>s'. turn w (n + k) s = Inr s'
     \<and> after_turns w (Suc k) n s0 = Some s'
     \<and> history s' = history s @ concat (map Messages (Steps result))
     \<and> prompt s' = ''Continue.''
     \<and> prefix (history s0) (history s)
     \<and> gameLoop_from w n s0 = gameLoop_from w (Suc (n + k)) s'"
proof -
  define s' where "s' = \<lparr>history = history s @ concat (map Messages (Steps result)),
          prompt = ''Continue.'', stdout = stdout s @ [CHR 0x0A]\<rparr>"
  have t: "turn w (n + k) s = Inr s'"
    unfolding s'_def using assms(2) by (rule turn_succeeded)
  have a: "after_turns w (Suc k) n s0 = Some s'"
    using after_turns_Suc [OF assms(1)] t by simp
  have "gameLoop_from w n s0 = gameLoop_from w (n + Suc k) s'"
    using a by (rule gameLoop_from_after_turns)
  moreover have "prefix (history s0) (history s)"
    using assms(1) by (rule after_turns_prefix)
  ultimately show ?thesis using t a by (simp add: s'_def)
qed

theorem history_append_only_witness:
  "after_turns \<lparr>Stream = (\<lambda>n p h. Inr \<lparr>Steps = [\<lparr>Messages = [p, ''a'']\<rparr>, \<lparr>Messages = [''b'']\<rparr>]\<rparr>),
                 sigCtx_Err = (\<lambda>n. None)\<rparr> 1 0 (initial :: string loop_state)
     = Some \<lparr>history = [''Begin.'', ''a'', ''b''], prompt = ''Continue.'',
             stdout = stdout (initial :: string loop_state) @ [CHR 0x0A]\<rparr>
   \<and> after_turns \<lparr>Stream = (\<lambda>n p h. Inr \<lparr>Steps = [\<lparr>Messages = [p, ''a'']\<rparr>, \<lparr>Messages = [''b'']\<rparr>]\<rparr>),
                 sigCtx_Err = (\<lambda>n. None)\<rparr> 2 0 (initial :: string loop_state)
     = Some \<lparr>history = [''Begin.'', ''a'', ''b'', ''Continue.'', ''a'', ''b''], prompt = ''Continue.'',
             stdout = stdout (initial :: string loop_state) @ [CHR 0x0A, CHR 0x0A]\<rparr>"
proof -
  define w :: "string world" where
    "w = \<lparr>Stream = (\<lambda>n p h. Inr \<lparr>Steps = [\<lparr>Messages = [p, ''a'']\<rparr>, \<lparr>Messages = [''b'']\<rparr>]\<rparr>),
          sigCtx_Err = (\<lambda>n. None)\<rparr>"
  define s1 :: "string loop_state" where
    "s1 = \<lparr>history = [''Begin.'', ''a'', ''b''], prompt = ''Continue.'',
             stdout = stdout (initial :: string loop_state) @ [CHR 0x0A]\<rparr>"
  have a: "after_turns w 1 0 (initial :: string loop_state) = Some s1"
    by (simp add: w_def s1_def turn_def initial_def)
  have r: "Stream w (0 + 1) (prompt s1) (history s1)
      = Inr \<lparr>Steps = [\<lparr>Messages = [''Continue.'', ''a'']\<rparr>, \<lparr>Messages = [''b'']\<rparr>]\<rparr>"
    by (simp add: w_def s1_def)
  from history_append_only [OF a r]
  obtain s' where "after_turns w (Suc 1) 0 (initial :: string loop_state) = Some s'"
    "history s' = history s1 @ concat (map Messages (Steps \<lparr>Steps = [\<lparr>Messages = [''Continue.'', ''a'']\<rparr>, \<lparr>Messages = [''b'']\<rparr>]\<rparr>))"
    "prompt s' = ''Continue.''" "turn w (0 + 1) s1 = Inr s'"
    by blast
  then have "after_turns w 2 0 (initial :: string loop_state)
     = Some \<lparr>history = [''Begin.'', ''a'', ''b'', ''Continue.'', ''a'', ''b''], prompt = ''Continue.'',
             stdout = stdout (initial :: string loop_state) @ [CHR 0x0A, CHR 0x0A]\<rparr>"
    by (auto simp: s1_def numeral_2_eq_2 turn_def w_def)
  with a show ?thesis unfolding w_def s1_def by simp
qed

section \<open>Properties of the notation parser\<close>

lemma IndexAny_less: "IndexAny s chars < int (length s)"
  by (induction s) (auto simp: Let_def)

text \<open>The index expressions of the parser are in range on a notation that is not empty.\<close>

lemma sign_index_in_range:
  assumes "notation \<noteq> []" "0 \<le> IndexAny (drop 1 notation) ''+-''"
  shows "nat (IndexAny (drop 1 notation) ''+-'' + 1) < length notation"
  using assms IndexAny_less [of "drop 1 notation" "''+-''"] by (cases "notation") auto

















lemma parse_dice_no_panic: "notation \<noteq> [] \<Longrightarrow> \<exists>p. parse_dice notation = Inr p"
  by (auto simp: parse_dice_def Let_def split: option.splits)

lemma parse_dice_valid:
  "parse_dice notation = Inr (Parsed count sides modifier) \<Longrightarrow> 1 \<le>s count \<and> 1 \<le>s sides"
  by (auto simp: parse_dice_def Let_def word_sle_eq split: option.splits if_splits)

text \<open>On every notation but the empty one the notation tool returns a text, and no error.\<close>

lemma rollDice_notation_returns:
  assumes "entropy_ok rnd" "TrimSpace Notation \<noteq> []"
  shows "\<exists>text. rollDice_notation rnd Notation = Inr (NewTextResponse text, None)"
proof -
  obtain p where p: "parse_dice (TrimSpace Notation) = Inr p"
    using parse_dice_no_panic [OF assms(2)] by blast
  show ?thesis
  proof (cases p)
    case Invalid_notation
    then show ?thesis using p by (simp add: rollDice_notation_def)
  next
    case (Parsed count sides modifier)
    then have "1 \<le>s count \<and> 1 \<le>s sides" using p parse_dice_valid by blast
    then obtain rolls tot where "roll rnd count sides modifier = Inr (rolls, tot)"
      using roll_ok [OF assms(1), of count sides modifier] by blast
    then show ?thesis using p Parsed by (simp add: rollDice_notation_def)
  qed
qed

text \<open>A notation without the separator is invalid.\<close>

lemma missing_separator_invalid:
  assumes "TrimSpace Notation \<noteq> []"
      and "CHR ''d'' \<notin> set (ToLower (mainPart (TrimSpace Notation)))"
  shows "rollDice_notation rnd Notation
       = Inr (NewTextResponse (invalid_text (TrimSpace Notation)), None)"
  using assms by (simp add: rollDice_notation_def parse_dice_def SplitN2_def Let_def)







text \<open>
  C9. The notation \<open>2d6+3\<close> parses to count 2, sides 6 and modifier +3; with the mocked
  entropy whose two draws give the outcomes 4 and 5 the total is 12, and the response
  reports the two outcomes, the modifier and that total.
\<close>

theorem rollDice_2d6_plus_3:
  "parse_dice (TrimSpace ''2d6+3'') = Inr (Parsed 2 6 3)
   \<and> roll (fixed_entropy [3, 4]) 2 6 3 = Inr ([4, 5], 12)
   \<and> rollDice_notation (fixed_entropy [3, 4]) ''2d6+3''
       = Inr (NewTextResponse ([CHR 0xF0, CHR 0x9F, CHR 0x8E, CHR 0xB2]
                                 @ '' Rolling 2d6+3: [4 5] +3 = **12**''), None)"
  by code_simp

text \<open>
  C3. On the empty notation, and on one of white space only, \<open>rollDice\<close> panics at
  \<open>notation[1:]\<close> instead of returning the invalid-notation response.
\<close>

theorem rollDice_empty_notation_panics:
  "rollDice_notation rnd [] = Inl (Panic ''slice bounds out of range [1:0]'')
   \<and> rollDice_notation rnd ''   '' = Inl (Panic ''slice bounds out of range [1:0]'')"
  by code_simp

section \<open>Properties of the lookups\<close>

text \<open>
  C5. A lookup whose request fails returns the text \<open>Failed to reach D&D API\<close>, and one
  that is answered with a status other than 200 (404 among them) returns a ``not found''
  text that quotes the name as it was given; both are ordinary tool outputs with a
  \<open>nil\<close> error.
\<close>

theorem lookup_failures:
  "(\<forall>err. get (''https://www.dnd5eapi.co/api/monsters/'' @ slug name) = Inl err \<longrightarrow>
      lookupMonster get unmarshal f \<lparr>Name = name\<rparr>
        = Inr (NewTextResponse ''Failed to reach D&D API'', None))
   \<and> (\<forall>resp. get (''https://www.dnd5eapi.co/api/monsters/'' @ slug name) = Inr resp
          \<and> StatusCode resp \<noteq> 200 \<longrightarrow>
      lookupMonster get unmarshal f \<lparr>Name = name\<rparr>
        = Inr (NewTextResponse (''Monster '' @ [CHR 0x27] @ name @ [CHR 0x27] @ '' not found''),
               None))
   \<and> (\<forall>err. get (''https://www.dnd5eapi.co/api/spells/'' @ slug name) = Inl err \<longrightarrow>
      lookupSpell get unmarshal f \<lparr>spell_Name = name\<rparr>
        = Inr (NewTextResponse ''Failed to reach D&D API'', None))
   \<and> (\<forall>resp. get (''https://www.dnd5eapi.co/api/spells/'' @ slug name) = Inr resp
          \<and> StatusCode resp \<noteq> 200 \<longrightarrow>
      lookupSpell get unmarshal f \<lparr>spell_Name = name\<rparr>
        = Inr (NewTextResponse (''Spell '' @ [CHR 0x27] @ name @ [CHR 0x27] @ '' not found''),
               None))"
  by (simp add: lookupMonster_def lookupSpell_def not_found_def)

theorem lookup_failures_witness:
  "slug ''Owl Bear'' = ''owl-bear''
   \<and> lookupMonster (\<lambda>url. Inr \<lparr>StatusCode = 404, Body = []\<rparr>) (\<lambda>body. [])
        \<lparr>verb_v = (\<lambda>a :: unit any. []), verb_s = (\<lambda>a. [])\<rparr> \<lparr>Name = ''Owl Bear''\<rparr>
      = Inr (NewTextResponse (''Monster '' @ [CHR 0x27] @ ''Owl Bear'' @ [CHR 0x27] @ '' not found''), None)
   \<and> lookupSpell (\<lambda>url. Inl (Error ''no route to host'')) (\<lambda>body. [])
        \<lparr>verb_v = (\<lambda>a :: unit any. []), verb_s = (\<lambda>a. [])\<rparr> \<lparr>spell_Name = ''Magic Missile''\<rparr>
      = Inr (NewTextResponse ''Failed to reach D&D API'', None)"
proof -
  have s: "slug ''Owl Bear'' = ''owl-bear''" by code_simp
  show ?thesis
    using s
      lookup_failures [of "\<lambda>url. Inr \<lparr>StatusCode = 404, Body = []\<rparr>" "''Owl Bear''" "\<lambda>body. []"
          "\<lparr>verb_v = (\<lambda>a :: unit any. []), verb_s = (\<lambda>a. [])\<rparr>"]
      lookup_failures [of "\<lambda>url. Inl (Error ''no route to host'')" "''Magic Missile''" "\<lambda>body. []"
          "\<lparr>verb_v = (\<lambda>a :: unit any. []), verb_s = (\<lambda>a. [])\<rparr>"]
    by simp
qed

text \<open>
  C6. A record fetched with status 200 whose \<open>actions\<close> list holds an element that is not
  an object (here a string), or whose \<open>special_abilities\<close> list holds one (here
  \<open>null\<close>), makes \<open>lookupMonster\<close> panic at the unchecked type assertion.
\<close>

theorem lookupMonster_panics:
  "lookupMonster (\<lambda>url. Inr \<lparr>StatusCode = 200, Body = body\<rparr>)
      (\<lambda>b. [(''name'', JString ''Owlbear''), (''actions'', JSlice [JString ''Multiattack''])])
      f \<lparr>Name = ''owlbear''\<rparr>
     = Inl (Panic ''interface conversion: interface {} is string, not map[string]interface {}'')
   \<and> lookupMonster (\<lambda>url. Inr \<lparr>StatusCode = 200, Body = body\<rparr>)
      (\<lambda>b. [(''name'', JString ''Owlbear''), (''special_abilities'', JSlice [JNil])])
      f \<lparr>Name = ''owlbear''\<rparr>
     = Inl (Panic ''interface conversion: interface {} is nil, not map[string]interface {}'')"
  by (simp add: lookupMonster_def add_section_def index_def type_name_def)

text \<open>
  The summary of a monster is returned whenever the \<open>actions\<close> and \<open>special_abilities\<close>
  lists, if present, hold objects only.
\<close>

lemma append_entries_objects:
  "\<forall>a\<in>set entries. \<exists>m. a = JMap m \<Longrightarrow> \<exists>text. append_entries f summary entries = Inr text"
  by (induction entries arbitrary: summary) auto

lemma add_section_objects:
  assumes "\<forall>entries. field = JSlice entries \<longrightarrow> (\<forall>a\<in>set entries. \<exists>m. a = JMap m)"
  shows "\<exists>text. add_section f summary title field = Inr text"
  using assms append_entries_objects [of _ f]
  by (cases field) (auto simp: add_section_def)

lemma lookupMonster_returns:
  assumes "\<forall>entries. index (unmarshal body) ''actions'' = JSlice entries
             \<longrightarrow> (\<forall>a\<in>set entries. \<exists>m. a = JMap m)"
      and "\<forall>entries. index (unmarshal body) ''special_abilities'' = JSlice entries
             \<longrightarrow> (\<forall>a\<in>set entries. \<exists>m. a = JMap m)"
  shows "\<exists>text. lookupMonster (\<lambda>url. Inr \<lparr>StatusCode = 200, Body = body\<rparr>) unmarshal f input
            = Inr (NewTextResponse text, None)"
proof -
  obtain s1 where s1: "add_section f (monster_summary f (unmarshal body)) ''Actions:''
      (index (unmarshal body) ''actions'') = Inr s1"
    using add_section_objects [OF assms(1)] by blast
  obtain s2 where s2: "add_section f s1 ''Special Abilities:''
      (index (unmarshal body) ''special_abilities'') = Inr s2"
    using add_section_objects [OF assms(2)] by blast
  show ?thesis using s1 s2 by (simp add: lookupMonster_def Let_def)
qed

text \<open>What \<open>formatAC\<close> gives for an armor class that is absent or has another shape.\<close>

lemma formatAC_placeholder:
  "formatAC f JNil = ''?''" "formatAC f (JString s) = ''?''" "formatAC f (JFloat64 x) = ''?''"
  "formatAC f (JBool b) = ''?''" "formatAC f (JMap m) = ''?''" "formatAC f (JSlice []) = ''?''"
  "\<forall>m. a \<noteq> JMap m \<Longrightarrow> formatAC f (JSlice (a # as)) = ''?''"
  by (auto simp: formatAC_def split: any.splits)

end
